theory Spec2Isabelle
  imports Complex_Main "HOL-Library.Product_Lexorder" "HOL-Library.AList"
begin

section \<open>The plotting module of sncosmo (sncosmo/plotting.py)\<close>

text \<open>
  The module has three entry points: \<^verbatim>\<open>plot_lc\<close>, \<^verbatim>\<open>plot_param_samples\<close> and
  \<^verbatim>\<open>animate_model\<close>. Each is embedded below as a function from its arguments to what
  it hands to matplotlib, together with the error it raises (if any) and the state of
  the caller's mutable arguments when it stops.

  Conventions of the embedding.
  \<^item> Python floats are idealised as \<^typ>\<open>real\<close>: rounding, infinities and NaN are not
    modelled. Where Python's own float division raises on a zero divisor
    (\<^verbatim>\<open>ZeroDivisionError\<close>) the model has an explicit error branch; numpy's
    element-wise division never raises and is written with HOL's division.
  \<^item> External objects are taken by the narrow contract the module relies on: bandpass
    lookup (\<^verbatim>\<open>get_bandpass\<close>), data normalisation and number formatting are
    parameters (record \<open>ext\<close>), a model object is a record of the attributes read.
  \<^item> A Python \<^verbatim>\<open>set\<close> is a duplicate-free list; the order in which a set or a
    dictionary is iterated is fixed to the list order. \<^verbatim>\<open>plot_lc\<close> sorts the bands
    before it draws them, so the drawing does not depend on that order.
  \<^item> The type \<open>'o\<close> stands for Python objects that name a band (a string or a
    Bandpass instance). Its linear order is the interpreter's ordering of objects, which
    \<^verbatim>\<open>sorted\<close> falls back on when two bands have the same effective wavelength.
\<close>

subsection \<open>Data model\<close>

datatype error =
  ValueError string | TypeError string | ZeroDivisionError | KeyError | RuntimeError string
  | NameError string

text \<open>One row of the photometric dataset: \<^verbatim>\<open>data['time']\<close>, \<^verbatim>\<open>data['band']\<close>,
  \<^verbatim>\<open>data['flux']\<close>, \<^verbatim>\<open>data['fluxerr']\<close>.\<close>

record 'o obs =
  time :: real
  band :: 'o
  flux :: real
  fluxerr :: real

text \<open>The attributes and methods of an \<^verbatim>\<open>ObsModel\<close> that \<^verbatim>\<open>plot_lc\<close> uses.
  \<open>bandflux m b t zp zpsys\<close> is the band flux at one time; the source calls it on
  arrays of times, and without a time argument it is evaluated on \<^verbatim>\<open>model.times\<close>,
  the field \<open>times_attr\<close>. The three parameter lists of a model have the same length.\<close>

record 'o obsmodel =
  name :: string
  param_names :: "string list"
  param_names_latex :: "string list"
  parameters :: "real list"
  times_attr :: "real list"
  bandoverlap :: "'o \<Rightarrow> bool"
  bandflux :: "'o \<Rightarrow> real \<Rightarrow> real \<Rightarrow> string \<Rightarrow> real"

text \<open>What the caller may pass as \<^verbatim>\<open>model\<close>: \<^verbatim>\<open>None\<close>, one object, or a list or
  tuple of objects; an object is an \<^verbatim>\<open>ObsModel\<close> instance or something else.\<close>

datatype 'o pyobj = ObsModel "'o obsmodel" | OtherObject

datatype 'o model_arg = ModelNone | ModelOne "'o pyobj" | ModelSeq "'o pyobj list"

text \<open>What the caller may pass as \<^verbatim>\<open>figtext\<close>: \<^verbatim>\<open>None\<close>, a string, or a list whose
  entries are strings or \<^verbatim>\<open>None\<close>.\<close>

datatype figtext_arg = FigNone | FigStr string | FigList "string option list"

text \<open>The arguments of \<^verbatim>\<open>plot_lc\<close>. Dictionaries (\<^verbatim>\<open>offsets\<close>, \<^verbatim>\<open>errors\<close>)
  are association lists with distinct keys. The type \<open>'f\<close> is that of whatever is passed
  on to \<^verbatim>\<open>savefig\<close> as \<^verbatim>\<open>fname\<close>: a file name or an object such as a
  \<^verbatim>\<open>PdfPages\<close>.\<close>

record ('o, 'f) args =
  data :: "'o obs list option"
  model :: "'o model_arg"
  bands :: "'o list option"
  zp :: real
  zpsys :: string
  pulls :: bool
  offsets :: "('o \<times> real) list option"
  xfigsize :: "real option"
  yfigsize :: "real option"
  figtext :: figtext_arg
  errors :: "(string \<times> real) list option"
  figtextsize :: real
  fname :: "'f option"

text \<open>The functions \<^verbatim>\<open>plot_lc\<close> imports from the rest of the package:
  \<open>get_bandpass\<close> and the attribute \<open>wave_eff\<close> of the bandpass it returns,
  \<open>normalized zp zpsys d\<close> for \<^verbatim>\<open>normalize_data(standardize_data(d), zp, zpsys)\<close>,
  \<open>value_error_str\<close>, and \<open>format_4f\<close> for \<^verbatim>\<open>'{:.4f}'.format\<close>.\<close>

record 'o ext =
  get_bandpass :: "'o \<Rightarrow> 'o"
  wave_eff :: "'o \<Rightarrow> real"
  normalized :: "real \<Rightarrow> string \<Rightarrow> 'o obs list \<Rightarrow> 'o obs list"
  value_error_str :: "real \<Rightarrow> real \<Rightarrow> string"
  format_4f :: "real \<Rightarrow> string"

text \<open>What one pass of the loop over bands draws: the arguments of
  \<^verbatim>\<open>plt.subplot(nrow, ncol, axnum)\<close>, the band, the number handed to the colour map,
  the error-bar points \<open>(x, y, yerr)\<close>, one line \<open>(x, y, linestyle, label)\<close> per
  overlapping model, and the pulls \<open>(x, y)\<close> when they are drawn. Axis labels, the
  legend, the zero line and the y-limits are left out: they read no argument that the
  properties below are about.\<close>

record 'o panel =
  subplot_nrow :: int
  subplot_ncol :: int
  axnum :: nat
  pband :: 'o
  color :: real
  errorbar :: "(real list \<times> real list \<times> real list) option"
  model_lines :: "(real list \<times> real list \<times> string \<times> string) list"
  fluxpulls :: "(real list \<times> real list) option"

record 'o figure =
  figsize :: "real \<times> real"
  texts :: "(real \<times> string) list"
  panels :: "'o panel list"

datatype 'f delivery = Shown | Saved 'f

text \<open>How a call ends: the error raised (\<open>None\<close> when the call returns), the figure
  created so far (\<open>None\<close> before \<^verbatim>\<open>plt.figure\<close>), whether it was shown or saved, and
  the caller's arguments as the call leaves them.\<close>

record ('o, 'f) outcome =
  raised :: "error option"
  fig :: "'o figure option"
  delivered :: "'f delivery option"
  args_after :: "('o, 'f) args"

subsection \<open>plot\_lc\<close>

definition failed :: "('o, 'f) args \<Rightarrow> error \<Rightarrow> ('o, 'f) outcome" where
  "failed a e = \<lparr>raised = Some e, fig = None, delivered = None, args_after = a\<rparr>"

fun isinstance_ObsModel :: "'o pyobj \<Rightarrow> bool" where
  "isinstance_ObsModel (ObsModel m) = True"
| "isinstance_ObsModel OtherObject = False"

text \<open>Lines 117-125: the list of models.\<close>

definition get_models :: "'o model_arg \<Rightarrow> error + 'o obsmodel list" where
  "get_models marg =
     (let models = (case marg of ModelNone \<Rightarrow> [] | ModelSeq ms \<Rightarrow> ms | ModelOne m \<Rightarrow> [m])
      in if \<not> list_all isinstance_ObsModel models
         then Inl (TypeError ''model(s) must be ObsModel instance(s)'')
         else Inr (concat (map (\<lambda>p. case p of ObsModel m \<Rightarrow> [m] | OtherObject \<Rightarrow> []) models)))"

text \<open>Lines 132-143: the bands to plot. With neither data nor bands the source would
  iterate over \<^verbatim>\<open>None\<close>; \<^verbatim>\<open>plot_lc\<close> has raised before (line 114).\<close>

definition select_bands :: "'o ext \<Rightarrow> 'o obs list option \<Rightarrow> 'o list option \<Rightarrow> error + 'o list" where
  "select_bands ext d bs =
     (case d of
        None \<Rightarrow>
          (case bs of
             None \<Rightarrow> Inl (TypeError ''NoneType object is not iterable'')
           | Some l \<Rightarrow> Inr (remdups (map (get_bandpass ext) l)))
      | Some rows \<Rightarrow>
          (let data_bands = map (\<lambda>r. get_bandpass ext (band r)) rows;
               unique_data_bands = remdups data_bands
           in case bs of
                None \<Rightarrow> Inr unique_data_bands
              | Some l \<Rightarrow>
                  Inr (filter (\<lambda>b. b \<in> set unique_data_bands)
                         (remdups (map (get_bandpass ext) l)))))"

text \<open>Lines 146-152: the offsets dictionary is rewritten in place. The first loop
  replaces each key by its bandpass (\<^verbatim>\<open>offsets[get_bandpass(key)] = offsets.pop(key)\<close>)
  while it iterates over the dictionary. A step whose new key is already in the
  dictionary (another key resolves to the same bandpass, or the bandpass itself is a key
  too) leaves the dictionary one entry shorter, and the iterator then raises
  \<^verbatim>\<open>RuntimeError\<close>; the dictionary stays as that step left it. A step whose new key is
  fresh, or is the key just popped, keeps the size. The keys are visited in the order they
  have when the loop starts; a new key that the iterator meets again is a bandpass, which
  \<^verbatim>\<open>get_bandpass\<close> returns as it is, and is stored back unchanged. The second loop gives every selected band that has no entry
  the offset 0.\<close>

fun rekey_offsets :: "('o \<Rightarrow> 'o) \<Rightarrow> 'o list \<Rightarrow> ('o \<times> real) list \<Rightarrow> error option \<times> ('o \<times> real) list" where
  "rekey_offsets gb [] d = (None, d)"
| "rekey_offsets gb (key # keys) d =
     (case map_of d key of
        None \<Rightarrow> (Some KeyError, d)
      | Some v \<Rightarrow>
          (if map_of (AList.delete key d) (gb key) \<noteq> None
           then (Some (RuntimeError ''dictionary changed size during iteration''),
                 AList.update (gb key) v (AList.delete key d))
           else rekey_offsets gb keys (AList.update (gb key) v (AList.delete key d))))"

fun fill_offsets :: "'o list \<Rightarrow> ('o \<times> real) list \<Rightarrow> ('o \<times> real) list" where
  "fill_offsets [] d = d"
| "fill_offsets (b # bs) d =
     fill_offsets bs (if map_of d b = None then AList.update b 0 d else d)"

definition update_offsets ::
  "'o ext \<Rightarrow> 'o list \<Rightarrow> ('o \<times> real) list option \<Rightarrow> error option \<times> ('o \<times> real) list option" where
  "update_offsets ext bs offs =
     (case offs of
        None \<Rightarrow> (None, None)
      | Some d \<Rightarrow>
          (case rekey_offsets (get_bandpass ext) (map fst d) d of
             (Some e, d') \<Rightarrow> (Some e, Some d')
           | (None, d') \<Rightarrow> (None, Some (fill_offsets bs d'))))"

text \<open>Lines 158-180: the caption blocks. A string becomes a fresh one-element list; a
  list passed by the caller is used as it is, so the two blocks appended for a single
  model are appended to the caller's list.\<close>

definition figtext_list :: "figtext_arg \<Rightarrow> string option list" where
  "figtext_list ft = (case ft of FigNone \<Rightarrow> [] | FigStr s \<Rightarrow> [Some s] | FigList l \<Rightarrow> l)"

definition join_lines :: "string list \<Rightarrow> string" where
  "join_lines ls = concat (case ls of [] \<Rightarrow> [] | x # xs \<Rightarrow> x # map (\<lambda>l. CHR 0x0A # l) xs)"

definition param_lines :: "'o ext \<Rightarrow> 'o obsmodel \<Rightarrow> (string \<times> real) list \<Rightarrow> string list" where
  "param_lines ext m errs =
     map (\<lambda>i. let nm = param_names m ! i;
                  lname = param_names_latex m ! i;
                  v = (case map_of errs nm of
                         Some e \<Rightarrow> value_error_str ext (parameters m ! i) e
                       | None \<Rightarrow> format_4f ext (parameters m ! i))
              in ''$'' @ lname @ '' = '' @ v @ ''$'')
         [0..<length (param_names m)]"

definition build_figtext ::
  "'o ext \<Rightarrow> 'o obsmodel list \<Rightarrow> (string \<times> real) list \<Rightarrow> string option list \<Rightarrow> string option list" where
  "build_figtext ext models errs ft =
     (if length models = 1
      then (let m = models ! 0;
                lines = param_lines ext m errs;
                n = length (param_names m) - length (param_names m) div 2
            in ft @ [Some (join_lines (take n lines))] @ [Some (join_lines (drop n lines))])
      else ft)"

text \<open>Lines 182-194: the grid and the figure size. \<open>ncol\<close> and \<open>nrow\<close> are Python
  integers, \<^verbatim>\<open>//\<close> is floor division, as \<open>div\<close> on \<^typ>\<open>int\<close> is. In the branch for
  a given height the float \<^verbatim>\<open>4. / 3. * ncol\<close> is divided by \<open>nrow\<close>, which raises
  when \<open>nrow\<close> is 0.\<close>

definition ncol :: int where
  "ncol = 2"

definition nrow :: "nat \<Rightarrow> int" where
  "nrow nsubplots = (int nsubplots - 1) div ncol + 1"

definition figsize_of :: "int \<Rightarrow> real option \<Rightarrow> real option \<Rightarrow> error + (real \<times> real)" where
  "figsize_of nr xf yf =
     (case (xf, yf) of
        (None, None) \<Rightarrow> Inr (4 * real_of_int ncol, 3 * real_of_int nr)
      | (Some x, None) \<Rightarrow> Inr (x, 3 / 4 * real_of_int nr / real_of_int ncol * x)
      | (None, Some y) \<Rightarrow>
          (if nr = 0 then Inl ZeroDivisionError
           else Inr (4 / 3 * real_of_int ncol / real_of_int nr * y, y))
      | (Some x, Some y) \<Rightarrow> Inl (ValueError ''cannot specify both xfigsize and yfigsize''))"

text \<open>Lines 205-212: the caption blocks that are written, with their x positions.\<close>

definition figtext_cmds :: "string option list \<Rightarrow> (real \<times> string) list" where
  "figtext_cmds ft =
     concat (map (\<lambda>i. case ft ! i of
                         None \<Rightarrow> []
                       | Some s \<Rightarrow> [(0.05 + 0.9 * (real i / real (length ft)), s)])
                 [0..<length ft])"

text \<open>Lines 108-110 and 219-220: the number handed to the colour map for a band of
  effective wavelength \<open>wave\<close>.\<close>

definition cm_wave_range :: "real \<times> real" where
  "cm_wave_range = (3000, 10000)"

definition cmap_arg :: "real \<Rightarrow> real" where
  "cmap_arg wave = (snd cm_wave_range - wave) / (snd cm_wave_range - fst cm_wave_range)"

definition model_ls :: "string list" where
  "model_ls = [''-'', ''--'', '':'', ''-.'']"

text \<open>\<^verbatim>\<open>models[0].parameters[1]\<close>, the reference time the x axis is shifted by. An
  \<^verbatim>\<open>ObsModel\<close> always has at least the two parameters z and t0.\<close>

definition t0 :: "'o obsmodel list \<Rightarrow> real" where
  "t0 models = parameters (models ! 0) ! 1"

text \<open>Lines 257-258 and 300-301: the offset is added to a model flux when an offsets
  dictionary was given and holds the band.\<close>

definition add_offset :: "('o \<times> real) list option \<Rightarrow> 'o \<Rightarrow> real list \<Rightarrow> real list" where
  "add_offset offs b mflux =
     (case offs of
        None \<Rightarrow> mflux
      | Some d \<Rightarrow> (case map_of d b of None \<Rightarrow> mflux | Some off \<Rightarrow> map (\<lambda>f. f + off) mflux))"

text \<open>Lines 217-311: the body of the loop over bands, for the subplot number
  \<open>axn\<close> (already incremented).\<close>

definition draw_band ::
  "'o ext \<Rightarrow> ('o, 'f) args \<Rightarrow> 'o obs list option \<Rightarrow> 'o obsmodel list \<Rightarrow> ('o \<times> real) list option \<Rightarrow>
   int \<Rightarrow> nat \<Rightarrow> real \<Rightarrow> 'o \<Rightarrow> 'o panel" where
  "draw_band ext a d models offs nr axn wave b =
     (let rows = (case d of None \<Rightarrow> [] | Some rs \<Rightarrow> filter (\<lambda>r. get_bandpass ext (band r) = b) rs);
          tm = map time rows;
          fl = map flux rows;
          fe = map fluxerr rows
      in \<lparr>subplot_nrow = nr, subplot_ncol = ncol, axnum = axn, pband = b,
          color = cmap_arg wave,
          errorbar =
            (case d of
               None \<Rightarrow> None
             | Some rs \<Rightarrow>
                 Some (if length models = 0 then tm else map (\<lambda>t. t - t0 models) tm, fl, fe)),
          model_lines =
            concat (map (\<lambda>(i, m).
                      if \<not> bandoverlap m b then []
                      else [(map (\<lambda>t. t - t0 models) (times_attr m),
                             add_offset offs b (map (\<lambda>t. bandflux m b t (zp a) (zpsys a)) (times_attr m)),
                             model_ls ! (i mod length model_ls),
                             name m)])
                    (enumerate 0 models)),
          fluxpulls =
            (if pulls a \<and> d \<noteq> None \<and> length models = 1 \<and> bandoverlap (models ! 0) b
             then (let mflux = add_offset offs b (map (\<lambda>t. bandflux (models ! 0) b t (zp a) (zpsys a)) tm)
                   in Some (map (\<lambda>t. t - t0 models) tm,
                            map (\<lambda>(f, m, e). (f - m) / e) (zip fl (zip mflux fe))))
             else None)\<rparr>)"

text \<open>Lines 214-217: the loop, with the counter \<open>axnum\<close> threaded through.\<close>

fun band_loop ::
  "'o ext \<Rightarrow> ('o, 'f) args \<Rightarrow> 'o obs list option \<Rightarrow> 'o obsmodel list \<Rightarrow> ('o \<times> real) list option \<Rightarrow>
   int \<Rightarrow> nat \<Rightarrow> (real \<times> 'o) list \<Rightarrow> 'o panel list" where
  "band_loop ext a d models offs nr axn [] = []"
| "band_loop ext a d models offs nr axn ((wave, b) # rest) =
     draw_band ext a d models offs nr (axn + 1) wave b
       # band_loop ext a d models offs nr (axn + 1) rest"

text \<open>The whole function. After the figure is drawn, line 313 divides
  \<^verbatim>\<open>figtextsize\<close> by the figure height, which raises when the height is 0.\<close>

definition plot_lc :: "('o::linorder) ext \<Rightarrow> ('o, 'f) args \<Rightarrow> ('o, 'f) outcome" where
  "plot_lc ext a =
     (if data a = None \<and> (case model a of ModelNone \<Rightarrow> True | _ \<Rightarrow> False)
      then failed a (ValueError ''must specify at least one of: data, model'')
      else if data a = None \<and> bands a = None
      then failed a (ValueError ''must specify bands to plot for model(s)'')
      else
        case get_models (model a) of
          Inl e \<Rightarrow> failed a e
        | Inr models \<Rightarrow>
            (let d = map_option (normalized ext (zp a) (zpsys a)) (data a)
             in case select_bands ext d (bands a) of
                  Inl e \<Rightarrow> failed a e
                | Inr bs \<Rightarrow>
                    (let waves = map (wave_eff ext) bs;
                         upd = update_offsets ext bs (offsets a);
                         a1 = a\<lparr>offsets := snd upd\<rparr>
                     in case fst upd of
                          Some e \<Rightarrow> failed a1 e
                        | None \<Rightarrow>
                            (let errs = (case errors a of None \<Rightarrow> [] | Some es \<Rightarrow> es);
                                 ft = build_figtext ext models errs (figtext_list (figtext a));
                                 a2 = a1\<lparr>figtext := (case figtext a of
                                                         FigList l \<Rightarrow> FigList ft
                                                       | FigStr s \<Rightarrow> FigStr s
                                                       | FigNone \<Rightarrow> FigNone)\<rparr>;
                                 nr = nrow (length bs)
                             in case figsize_of nr (xfigsize a) (yfigsize a) of
                                  Inl e \<Rightarrow> failed a2 e
                                | Inr fs0 \<Rightarrow>
                                    (let fs = (if length ft > 0
                                               then (fst fs0, snd fs0 + figtextsize a)
                                               else fs0);
                                         f = \<lparr>figsize = fs,
                                              texts = figtext_cmds ft,
                                              panels = band_loop ext a d models (snd upd) nr 0
                                                         (sort (zip waves bs))\<rparr>
                                     in if snd fs = 0
                                        then \<lparr>raised = Some ZeroDivisionError, fig = Some f,
                                              delivered = None, args_after = a2\<rparr>
                                        else \<lparr>raised = None, fig = Some f,
                                              delivered = Some (case fname a of
                                                               None \<Rightarrow> Shown
                                                             | Some fn \<Rightarrow> Saved fn),
                                              args_after = a2\<rparr>)))))"

text \<open>Observations of an outcome, used to state properties: the panels drawn (none
  when no figure was created), their bands, their colour-map arguments, and the pulls
  drawn per band.\<close>

definition panels_drawn :: "('o, 'f) outcome \<Rightarrow> 'o panel list" where
  "panels_drawn r = (case fig r of None \<Rightarrow> [] | Some f \<Rightarrow> panels f)"

definition bands_drawn :: "('o, 'f) outcome \<Rightarrow> 'o list" where
  "bands_drawn r = map pband (panels_drawn r)"

definition colors_drawn :: "('o, 'f) outcome \<Rightarrow> ('o \<times> real) list" where
  "colors_drawn r = map (\<lambda>p. (pband p, color p)) (panels_drawn r)"





text \<open>Modelled from the spec: the colour map \<^verbatim>\<open>cmap\<close> is the object that matplotlib's
  \<^verbatim>\<open>cm.get_cmap('gist_rainbow')\<close> returns, and is not part of the source. The
  specification has bands outside the reference range clamp at the map boundaries: an
  argument below 0 gets the colour of 0 and an argument above 1 the colour of 1. The
  parameter \<open>ramp\<close> is the colour ramp on \<open>[0, 1]\<close>.\<close>

definition cmap :: "(real \<Rightarrow> 'c) \<Rightarrow> real \<Rightarrow> 'c" where
  "cmap ramp x = ramp (max 0 (min 1 x))"

text \<open>Lines 219-220: the colour a panel is drawn in, \<^verbatim>\<open>cmap\<close> applied to the number
  the loop computes.\<close>

definition colour_received :: "(real \<Rightarrow> 'c) \<Rightarrow> 'o panel \<Rightarrow> 'c" where
  "colour_received ramp p = cmap ramp (color p)"

subsection \<open>plot\_param\_samples\<close>

text \<open>\<^verbatim>\<open>samples\<close> is an array of shape (nsamples, nparams), a list of rows;
  \<open>column samples i\<close> is \<^verbatim>\<open>samples[:, i]\<close>. The numpy functions are modelled on one
  column (\<^verbatim>\<open>axis=0\<close>): \<^verbatim>\<open>np.average\<close> divides the weighted sum by the sum of the
  weights and raises when the weights sum to zero or have the wrong length;
  \<^verbatim>\<open>np.std\<close> is the root of the mean squared deviation from the mean.\<close>

definition column :: "real list list \<Rightarrow> nat \<Rightarrow> real list" where
  "column samples i = map (\<lambda>row. row ! i) samples"

definition np_mean :: "real list \<Rightarrow> real" where
  "np_mean xs = sum_list xs / real (length xs)"

definition np_average :: "real list \<Rightarrow> real list option \<Rightarrow> error + real" where
  "np_average xs weights =
     (case weights of
        None \<Rightarrow> Inr (np_mean xs)
      | Some ws \<Rightarrow>
          if length ws \<noteq> length xs
          then Inl (ValueError ''Length of weights not compatible with specified axis.'')
          else if sum_list ws = 0 then Inl ZeroDivisionError
          else Inr (sum_list (map (\<lambda>(x, w). x * w) (zip xs ws)) / sum_list ws))"

definition np_std :: "real list \<Rightarrow> real" where
  "np_std xs = sqrt (np_mean (map (\<lambda>x. (x - np_mean xs)\<^sup>2) xs))"

text \<open>Lines 349-355: the average and the standard deviation of parameter \<open>i\<close>. With
  weights the source takes the root of \<^verbatim>\<open>sum(weights * samples**2) - avg**2\<close>.\<close>

definition avg_std :: "real list list \<Rightarrow> real list option \<Rightarrow> nat \<Rightarrow> error + (real \<times> real)" where
  "avg_std samples weights i =
     (case np_average (column samples i) weights of
        Inl e \<Rightarrow> Inl e
      | Inr avg \<Rightarrow>
          Inr (avg,
               (case weights of
                  None \<Rightarrow> np_std (column samples i)
                | Some ws \<Rightarrow>
                    sqrt (sum_list (map (\<lambda>(w, x). w * x\<^sup>2) (zip ws (column samples i))) - avg\<^sup>2))))"

text \<open>Lines 362-364: the window \<^verbatim>\<open>(avg[i] - 5*std[i], avg[i] + 5*std[i])\<close> of parameter
  \<open>i\<close>, used as \<^verbatim>\<open>xlims\<close> in column \<open>i\<close> and as \<^verbatim>\<open>ylims\<close> in row \<open>i\<close>.\<close>

definition xlims :: "real list list \<Rightarrow> real list option \<Rightarrow> nat \<Rightarrow> error + (real \<times> real)" where
  "xlims samples weights i =
     (case avg_std samples weights i of
        Inl e \<Rightarrow> Inl e
      | Inr (avg, std) \<Rightarrow> Inr (avg - 5 * std, avg + 5 * std))"

text \<open>The statistics the specification names, written from its words: the weighted mean
  and the weighted standard deviation of a column, and the window of five standard
  deviations around the mean.\<close>

definition weighted_mean :: "real list \<Rightarrow> real list \<Rightarrow> real" where
  "weighted_mean xs ws = sum_list (map (\<lambda>(x, w). w * x) (zip xs ws)) / sum_list ws"

definition weighted_std :: "real list \<Rightarrow> real list \<Rightarrow> real" where
  "weighted_std xs ws =
     sqrt (sum_list (map (\<lambda>(x, w). w * (x - weighted_mean xs ws)\<^sup>2) (zip xs ws)) / sum_list ws)"

definition spec_window :: "real list \<Rightarrow> real list option \<Rightarrow> real \<times> real" where
  "spec_window xs weights =
     (case weights of
        None \<Rightarrow> (np_mean xs - 5 * np_std xs, np_mean xs + 5 * np_std xs)
      | Some ws \<Rightarrow> (weighted_mean xs ws - 5 * weighted_std xs ws,
                   weighted_mean xs ws + 5 * weighted_std xs ws))"

subsection \<open>animate\_model\<close>

text \<open>Of a spectral model only the attribute \<^verbatim>\<open>refphase\<close> matters for the time
  offsets. The argument is one model (or name) or an iterable of them.\<close>

record sedmodel =
  refphase :: real

datatype 'a models_arg = OneModel 'a | ManyModels "'a list"

text \<open>Lines 489-493. The list comprehension calls \<^verbatim>\<open>get_model\<close> on every element.
  The file neither defines nor imports that name, so the first call raises
  \<^verbatim>\<open>NameError\<close>; only an empty iterable gets past the line, with an empty list of
  models.\<close>

definition resolve_models :: "'a models_arg \<Rightarrow> error + sedmodel list" where
  "resolve_models model_or_models =
     (case (case model_or_models of OneModel m \<Rightarrow> [m] | ManyModels ms \<Rightarrow> ms) of
        [] \<Rightarrow> Inr []
      | m # ms \<Rightarrow> Inl (NameError ''get_model''))"

text \<open>Lines 495-498.\<close>

definition time_offsets :: "'z sedmodel_scheme list \<Rightarrow> bool \<Rightarrow> real list" where
  "time_offsets models match_refphase =
     (let offs = map (\<lambda>m. refphase m - refphase (models ! 0)) models
      in if \<not> match_refphase then replicate (length models) 0 else offs)"

text \<open>Lines 489-498 together: the time offsets \<^verbatim>\<open>animate_model\<close> has computed when it
  reaches line 500, or the error raised before.\<close>

definition animate_model_offsets :: "'a models_arg \<Rightarrow> bool \<Rightarrow> error + real list" where
  "animate_model_offsets model_or_models match_refphase =
     (case resolve_models model_or_models of
        Inl e \<Rightarrow> Inl e
      | Inr models \<Rightarrow> Inr (time_offsets models match_refphase))"

subsection \<open>Sample inputs\<close>

text \<open>Band objects are numbered. The names 10, 11 and 12 resolve to the bandpasses 0, 1
  and 2, and a bandpass resolves to itself. Bandpass 0 has effective wavelength 4000,
  bandpass 1 has 6000 and bandpass 2 has 2000, outside the reference range.\<close>

definition ext0 :: "nat ext" where
  "ext0 = \<lparr>get_bandpass = (\<lambda>k. k mod 10),
           wave_eff = (\<lambda>b. if b = 0 then 4000 else if b = 1 then 6000 else 2000),
           normalized = (\<lambda>z s d. d),
           value_error_str = (\<lambda>v e. ''v +/- e''),
           format_4f = (\<lambda>v. ''v'')\<rparr>"

text \<open>A model that overlaps every band, with band flux 2 everywhere.\<close>

definition model0 :: "nat obsmodel" where
  "model0 = \<lparr>name = ''m'', param_names = [''z'', ''t0''],
             param_names_latex = [''z'', ''t_0''], parameters = [0, 0],
             times_attr = [0, 1], bandoverlap = (\<lambda>b. True), bandflux = (\<lambda>b t z s. 2)\<rparr>"

text \<open>A call with two data points, one in band 1 and one in band 0, one model, and every
  option at its default.\<close>

definition args0 :: "(nat, string) args" where
  "args0 = \<lparr>data = Some [\<lparr>time = 0, band = 11, flux = 5, fluxerr = 1\<rparr>,
                         \<lparr>time = 1, band = 10, flux = 4, fluxerr = 2\<rparr>],
            model = ModelOne (ObsModel model0), bands = None, zp = 25, zpsys = ''ab'',
            pulls = True, offsets = None, xfigsize = None, yfigsize = None,
            figtext = FigNone, errors = None, figtextsize = 1, fname = None\<rparr>"


text \<open>The model alone, in the bands named 12 and 10: bandpass 2 lies outside the
  reference range of the colour map.\<close>

definition args2 :: "(nat, string) args" where
  "args2 = args0\<lparr>data := None, bands := Some [12, 10]\<rparr>"


section \<open>Properties of plot\_lc\<close>

subsection \<open>Auxiliary facts\<close>

lemmas plot_lc_eval =
  plot_lc_def failed_def get_models_def select_bands_def update_offsets_def build_figtext_def
  figtext_list_def nrow_def ncol_def figsize_of_def Let_def

lemmas sample_defs = ext0_def args0_def model0_def

lemma band_loop_length: "length (band_loop ext a d ms offs nr axn xs) = length xs"
  by (induction xs arbitrary: axn) auto

lemma band_loop_nth:
  "i < length xs \<Longrightarrow>
   band_loop ext a d ms offs nr axn xs ! i =
     draw_band ext a d ms offs nr (axn + i + 1) (fst (xs ! i)) (snd (xs ! i))"
proof (induction xs arbitrary: axn i)
  case Nil
  then show ?case by simp
next
  case (Cons x xs)
  obtain w b where x: "x = (w, b)" by (cases x)
  show ?case
  proof (cases i)
    case 0
    then show ?thesis by (simp add: x)
  next
    case (Suc j)
    with Cons.prems have "j < length xs" by simp
    from Cons.IH [OF this, of "axn + 1"] show ?thesis
      by (simp add: x Suc)
  qed
qed

lemma band_loop_pband: "map pband (band_loop ext a d ms offs nr axn xs) = map snd xs"
  by (induction xs arbitrary: axn) (auto simp: draw_band_def Let_def)

lemma draw_band_fields:
  "subplot_nrow (draw_band ext a d ms offs nr axn w b) = nr"
  "subplot_ncol (draw_band ext a d ms offs nr axn w b) = ncol"
  "axnum (draw_band ext a d ms offs nr axn w b) = axn"
  "pband (draw_band ext a d ms offs nr axn w b) = b"
  "color (draw_band ext a d ms offs nr axn w b) = cmap_arg w"
  by (simp_all add: draw_band_def Let_def)

text \<open>A call that creates a figure has passed every check before \<^verbatim>\<open>plt.figure\<close>.\<close>

lemma plot_lc_figE:
  assumes "fig (plot_lc ext a) = Some f"
  obtains ms bs where
    "get_models (model a) = Inr ms"
    "select_bands ext (map_option (normalized ext (zp a) (zpsys a)) (data a)) (bands a) = Inr bs"
    "fst (update_offsets ext bs (offsets a)) = None"
    "offsets (args_after (plot_lc ext a)) = snd (update_offsets ext bs (offsets a))"
    "panels f =
       band_loop ext a (map_option (normalized ext (zp a) (zpsys a)) (data a)) ms
         (snd (update_offsets ext bs (offsets a))) (nrow (length bs)) 0
         (sort (zip (map (wave_eff ext) bs) bs))"
  using assms
  by (auto simp: plot_lc_def failed_def Let_def
      split: if_splits sum.splits option.splits)

lemma panels_drawnE:
  assumes "p \<in> set (panels_drawn (plot_lc ext a))"
  obtains f where "fig (plot_lc ext a) = Some f" and "p \<in> set (panels f)"
  using assms by (cases "fig (plot_lc ext a)") (auto simp: panels_drawn_def)

lemma select_bands_distinct: "select_bands ext d bs = Inr l \<Longrightarrow> distinct l"
  by (auto simp: select_bands_def Let_def split: option.splits)

lemma select_bands_set:
  "select_bands ext d bs = Inr l \<Longrightarrow>
   set l =
     (case d of
        None \<Rightarrow> (case bs of None \<Rightarrow> {} | Some r \<Rightarrow> get_bandpass ext ` set r)
      | Some rows \<Rightarrow>
          (case bs of
             None \<Rightarrow> (\<lambda>r. get_bandpass ext (band r)) ` set rows
           | Some r \<Rightarrow> get_bandpass ext ` set r \<inter> (\<lambda>r. get_bandpass ext (band r)) ` set rows))"
  by (auto simp: select_bands_def Let_def split: option.splits) (metis imageI)

lemma zip_waves: "zip (map f bs) bs = map (\<lambda>b. (f b, b)) bs"
  by (induction bs) auto

lemma set_sorted_zip: "snd ` set (sort (zip (map f bs) bs)) = set bs"
  by (simp add: zip_waves image_image)

lemma distinct_sorted_zip: "distinct bs \<Longrightarrow> distinct (map snd (sort (zip (map f bs) bs)))"
  by (auto simp: distinct_map zip_waves inj_on_def)

lemma sorted_zip_fst:
  assumes "i < length bs"
  shows "fst (sort (zip (map f bs) bs) ! i) = f (snd (sort (zip (map f bs) bs) ! i))"
proof -
  from assms have "sort (zip (map f bs) bs) ! i \<in> set (sort (zip (map f bs) bs))"
    by (intro nth_mem) simp
  then show ?thesis
    by (auto simp: zip_waves)
qed

lemma nrow_ceiling: "1 \<le> n \<Longrightarrow> nrow n = \<lceil>real n / 2\<rceil>"
  unfolding nrow_def ncol_def by linarith

text \<open>Every panel drawn is the loop body run on the \<open>i\<close>-th pair of the sorted list,
  with subplot number \<open>i + 1\<close>.\<close>

lemma panels_nth:
  assumes "p \<in> set (panels_drawn (plot_lc ext a))"
  obtains ms bs i where
    "select_bands ext (map_option (normalized ext (zp a) (zpsys a)) (data a)) (bands a) = Inr bs"
    "get_models (model a) = Inr ms"
    "fst (update_offsets ext bs (offsets a)) = None"
    "offsets (args_after (plot_lc ext a)) = snd (update_offsets ext bs (offsets a))"
    "length (panels_drawn (plot_lc ext a)) = length bs"
    "i < length bs"
    "pband p \<in> set bs"
    "p = draw_band ext a (map_option (normalized ext (zp a) (zpsys a)) (data a)) ms
           (snd (update_offsets ext bs (offsets a))) (nrow (length bs)) (i + 1)
           (fst (sort (zip (map (wave_eff ext) bs) bs) ! i))
           (snd (sort (zip (map (wave_eff ext) bs) bs) ! i))"
proof -
  from assms obtain f where f: "fig (plot_lc ext a) = Some f" and pf: "p \<in> set (panels f)"
    by (rule panels_drawnE)
  from f obtain ms bs where
    ms: "get_models (model a) = Inr ms"
    and sel: "select_bands ext (map_option (normalized ext (zp a) (zpsys a)) (data a)) (bands a) = Inr bs"
    and upd: "fst (update_offsets ext bs (offsets a)) = None"
    and off: "offsets (args_after (plot_lc ext a)) = snd (update_offsets ext bs (offsets a))"
    and pan: "panels f =
       band_loop ext a (map_option (normalized ext (zp a) (zpsys a)) (data a)) ms
         (snd (update_offsets ext bs (offsets a))) (nrow (length bs)) 0
         (sort (zip (map (wave_eff ext) bs) bs))"
    by (rule plot_lc_figE)
  have len: "length (panels f) = length bs"
    unfolding pan by (simp add: band_loop_length)
  from pf obtain i where i: "i < length (panels f)" and p: "p = panels f ! i"
    by (auto simp: in_set_conv_nth)
  from i len have isorted: "i < length (sort (zip (map (wave_eff ext) bs) bs))"
    by simp
  from band_loop_nth [OF this, where a = a] p have pdraw:
    "p = draw_band ext a (map_option (normalized ext (zp a) (zpsys a)) (data a)) ms
           (snd (update_offsets ext bs (offsets a))) (nrow (length bs)) (i + 1)
           (fst (sort (zip (map (wave_eff ext) bs) bs) ! i))
           (snd (sort (zip (map (wave_eff ext) bs) bs) ! i))"
    unfolding pan by simp
  from isorted have "snd (sort (zip (map (wave_eff ext) bs) bs) ! i)
      \<in> snd ` set (sort (zip (map (wave_eff ext) bs) bs))"
    by (intro imageI nth_mem)
  then have mem: "pband p \<in> set bs"
    unfolding set_sorted_zip by (simp add: pdraw draw_band_fields)
  from len f have "length (panels_drawn (plot_lc ext a)) = length bs"
    by (simp add: panels_drawn_def)
  with pdraw mem show ?thesis
    using sel ms upd off i len by (intro that [of bs ms i]) simp_all
qed

text \<open>The sample call draws two panels: band 0 in subplot 1 and band 1 in subplot 2.\<close>

lemma args0_panels:
  "map (\<lambda>p. (axnum p, pband p)) (panels_drawn (plot_lc ext0 args0)) = [(1, 0), (2, 1)]"
  by (simp add: panels_drawn_def plot_lc_eval sample_defs draw_band_def)

lemma args0_panel_members:
  "panels_drawn (plot_lc ext0 args0) ! 0 \<in> set (panels_drawn (plot_lc ext0 args0))"
  "panels_drawn (plot_lc ext0 args0) ! 1 \<in> set (panels_drawn (plot_lc ext0 args0))"
  "pband (panels_drawn (plot_lc ext0 args0) ! 0) = 0"
  "pband (panels_drawn (plot_lc ext0 args0) ! 1) = 1"
  "length (panels_drawn (plot_lc ext0 args0)) = 2"
proof -
  have len: "length (panels_drawn (plot_lc ext0 args0)) = 2"
    using arg_cong [OF args0_panels, of length] by simp
  then show "length (panels_drawn (plot_lc ext0 args0)) = 2" .
  from len show "panels_drawn (plot_lc ext0 args0) ! 0 \<in> set (panels_drawn (plot_lc ext0 args0))"
    by (intro nth_mem) simp
  from len show "panels_drawn (plot_lc ext0 args0) ! 1 \<in> set (panels_drawn (plot_lc ext0 args0))"
    by (intro nth_mem) simp
  from len have "(\<lambda>p. (axnum p, pband p)) (panels_drawn (plot_lc ext0 args0) ! 0) = (1, 0)"
    using arg_cong [OF args0_panels, of "\<lambda>l. l ! 0"] by simp
  then show "pband (panels_drawn (plot_lc ext0 args0) ! 0) = 0" by simp
  from len have "(\<lambda>p. (axnum p, pband p)) (panels_drawn (plot_lc ext0 args0) ! 1) = (2, 1)"
    using arg_cong [OF args0_panels, of "\<lambda>l. l ! 1"] by simp
  then show "pband (panels_drawn (plot_lc ext0 args0) ! 1) = 1" by simp
qed

text \<open>The panels of the other sample calls.\<close>

lemma two_panels:
  assumes "map f ps = [x0, x1]"
  shows "ps ! 0 \<in> set ps" "ps ! 1 \<in> set ps" "f (ps ! 0) = x0" "f (ps ! 1) = x1" "length ps = 2"
proof -
  have len: "length ps = 2"
    using arg_cong [OF assms, of length] by simp
  then show "length ps = 2" .
  from len show "ps ! 0 \<in> set ps" by (intro nth_mem) simp
  from len show "ps ! 1 \<in> set ps" by (intro nth_mem) simp
  from len arg_cong [OF assms, of "\<lambda>l. l ! 0"] show "f (ps ! 0) = x0" by simp
  from len arg_cong [OF assms, of "\<lambda>l. l ! 1"] show "f (ps ! 1) = x1" by simp
qed


lemma args2_panels:
  "map pband (panels_drawn (plot_lc ext0 args2)) = [2, 0]"
  by (simp add: panels_drawn_def plot_lc_eval sample_defs args2_def draw_band_def)

subsection \<open>Which bands are drawn\<close>

text \<open>
  Claim C1. For every call of \<^verbatim>\<open>plot_lc\<close> that gets as far as creating the figure (a
  call that raises earlier draws nothing): with data and no band list, the set of bands
  drawn is exactly the set of bandpasses of the data rows; with data and a band list, it
  is exactly the intersection of the requested bandpasses and those of the data; without
  data, it is exactly the set of requested bandpasses. Each band is drawn once.
\<close>

theorem plot_lc_bands_rendered:
  assumes "fig (plot_lc ext a) = Some f"
  shows "(\<forall>rows. data a = Some rows \<and> bands a = None \<longrightarrow>
            pband ` set (panels f) =
              (\<lambda>r. get_bandpass ext (band r)) ` set (normalized ext (zp a) (zpsys a) rows))
       \<and> (\<forall>rows l. data a = Some rows \<and> bands a = Some l \<longrightarrow>
            pband ` set (panels f) =
              get_bandpass ext ` set l \<inter>
              (\<lambda>r. get_bandpass ext (band r)) ` set (normalized ext (zp a) (zpsys a) rows))
       \<and> (\<forall>l. data a = None \<and> bands a = Some l \<longrightarrow>
            pband ` set (panels f) = get_bandpass ext ` set l)
       \<and> distinct (map pband (panels f))"
proof -
  from assms obtain ms bs where
    sel: "select_bands ext (map_option (normalized ext (zp a) (zpsys a)) (data a)) (bands a) = Inr bs"
    and pan: "panels f =
       band_loop ext a (map_option (normalized ext (zp a) (zpsys a)) (data a)) ms
         (snd (update_offsets ext bs (offsets a))) (nrow (length bs)) 0
         (sort (zip (map (wave_eff ext) bs) bs))"
    by (rule plot_lc_figE)
  have drawn: "map pband (panels f) = map snd (sort (zip (map (wave_eff ext) bs) bs))"
    unfolding pan by (rule band_loop_pband)
  have set_drawn: "pband ` set (panels f) = set bs"
    using arg_cong [OF drawn, of set] set_sorted_zip [of "wave_eff ext" bs] by simp
  have "distinct (map pband (panels f))"
    unfolding drawn using select_bands_distinct [OF sel] by (rule distinct_sorted_zip)
  then show ?thesis
    using select_bands_set [OF sel] by (auto simp: set_drawn)
qed

theorem plot_lc_bands_rendered_witness:
  "set (bands_drawn (plot_lc ext0 args0)) = {0, 1}
   \<and> set (bands_drawn (plot_lc ext0 (args0\<lparr>bands := Some [11, 12]\<rparr>))) = {1}
   \<and> set (bands_drawn (plot_lc ext0 (args0\<lparr>data := None, bands := Some [12, 10]\<rparr>))) = {0, 2}"
proof -
  obtain f1 where f1: "fig (plot_lc ext0 args0) = Some f1"
    by (simp add: plot_lc_eval sample_defs)
  obtain f2 where f2: "fig (plot_lc ext0 (args0\<lparr>bands := Some [11, 12]\<rparr>)) = Some f2"
    by (simp add: plot_lc_eval sample_defs)
  obtain f3 where f3: "fig (plot_lc ext0 (args0\<lparr>data := None, bands := Some [12, 10]\<rparr>)) = Some f3"
    by (simp add: plot_lc_eval sample_defs)
  have "pband ` set (panels f1) = {0, 1}"
    using plot_lc_bands_rendered [OF f1] by (auto simp: sample_defs)
  moreover have "pband ` set (panels f2) = {1}"
    using plot_lc_bands_rendered [OF f2] by (auto simp: sample_defs)
  moreover have "pband ` set (panels f3) = {0, 2}"
    using plot_lc_bands_rendered [OF f3] by (auto simp: sample_defs)
  ultimately show ?thesis
    by (simp add: bands_drawn_def panels_drawn_def f1 f2 f3)
qed

subsection \<open>Missing inputs\<close>

text \<open>
  Claim C4. A call without data raises a \<^verbatim>\<open>ValueError\<close> when the model is absent too,
  and also when a model is given but no band list is. In both cases no figure has been
  created, nothing is shown or saved, and no argument has been touched.
\<close>

theorem plot_lc_missing_input_raises:
  assumes "data a = None" and "model a = ModelNone \<or> bands a = None"
  shows "raised (plot_lc ext a) =
           Some (ValueError (if model a = ModelNone
                             then ''must specify at least one of: data, model''
                             else ''must specify bands to plot for model(s)''))
         \<and> fig (plot_lc ext a) = None
         \<and> delivered (plot_lc ext a) = None
         \<and> args_after (plot_lc ext a) = a"
  using assms by (auto simp: plot_lc_def failed_def split: model_arg.splits)

theorem plot_lc_missing_input_raises_witness:
  "raised (plot_lc ext0 (args0\<lparr>data := None, model := ModelNone\<rparr>)) =
     Some (ValueError ''must specify at least one of: data, model'')
   \<and> fig (plot_lc ext0 (args0\<lparr>data := None, model := ModelNone\<rparr>)) = None
   \<and> raised (plot_lc ext0 (args0\<lparr>data := None\<rparr>)) =
     Some (ValueError ''must specify bands to plot for model(s)'')
   \<and> fig (plot_lc ext0 (args0\<lparr>data := None\<rparr>)) = None"
  using plot_lc_missing_input_raises [of "args0\<lparr>data := None, model := ModelNone\<rparr>" ext0]
    plot_lc_missing_input_raises [of "args0\<lparr>data := None\<rparr>" ext0]
  by (simp add: args0_def)

subsection \<open>The subplot grid\<close>

text \<open>
  Claim C9. Whenever \<^verbatim>\<open>plot_lc\<close> draws at least one band, every subplot is placed in
  a grid of exactly 2 columns and \<open>ceil(n/2)\<close> rows, where \<open>n\<close> is the number of bands
  drawn; the row count the code computes, \<open>(n - 1) div 2 + 1\<close>, is that ceiling.
\<close>

theorem plot_lc_grid:
  assumes "p \<in> set (panels_drawn (plot_lc ext a))"
  shows "subplot_ncol p = 2
       \<and> subplot_nrow p = (int (length (panels_drawn (plot_lc ext a))) - 1) div 2 + 1
       \<and> subplot_nrow p = \<lceil>real (length (panels_drawn (plot_lc ext a))) / 2\<rceil>
       \<and> nrow (length (panels_drawn (plot_lc ext a))) =
           \<lceil>real (length (panels_drawn (plot_lc ext a))) / 2\<rceil>"
proof -
  from assms obtain ms bs i where
    len: "length (panels_drawn (plot_lc ext a)) = length bs" and i: "i < length bs"
    and p: "p = draw_band ext a (map_option (normalized ext (zp a) (zpsys a)) (data a)) ms
           (snd (update_offsets ext bs (offsets a))) (nrow (length bs)) (i + 1)
           (fst (sort (zip (map (wave_eff ext) bs) bs) ! i))
           (snd (sort (zip (map (wave_eff ext) bs) bs) ! i))"
    by (rule panels_nth)
  from i have "1 \<le> length bs" by simp
  from nrow_ceiling [OF this] show ?thesis
    by (simp add: p draw_band_fields len) (simp add: nrow_def ncol_def)
qed

theorem plot_lc_grid_witness:
  "subplot_ncol (panels_drawn (plot_lc ext0 args0) ! 0) = 2
   \<and> subplot_nrow (panels_drawn (plot_lc ext0 args0) ! 0) = 1
   \<and> length (panels_drawn (plot_lc ext0 args0)) = 2"
  using plot_lc_grid [OF args0_panel_members(1)] args0_panel_members(5)
  by simp

subsection \<open>The drawing order\<close>

text \<open>
  Claim C10. \<^verbatim>\<open>plot_lc\<close> draws the selected bands in increasing order of effective
  wavelength: of any two bands drawn, the one with the smaller effective wavelength gets
  the smaller subplot number.
\<close>

theorem plot_lc_wavelength_order:
  assumes "p \<in> set (panels_drawn (plot_lc ext a))"
    and "q \<in> set (panels_drawn (plot_lc ext a))"
    and "wave_eff ext (pband p) < wave_eff ext (pband q)"
  shows "axnum p < axnum q"
proof -
  from assms(1) obtain ms bs i where
    sel: "select_bands ext (map_option (normalized ext (zp a) (zpsys a)) (data a)) (bands a) = Inr bs"
    and i: "i < length bs"
    and p: "p = draw_band ext a (map_option (normalized ext (zp a) (zpsys a)) (data a)) ms
           (snd (update_offsets ext bs (offsets a))) (nrow (length bs)) (i + 1)
           (fst (sort (zip (map (wave_eff ext) bs) bs) ! i))
           (snd (sort (zip (map (wave_eff ext) bs) bs) ! i))"
    by (rule panels_nth)
  from assms(2) obtain ms' bs' j where
    sel': "select_bands ext (map_option (normalized ext (zp a) (zpsys a)) (data a)) (bands a) = Inr bs'"
    and j: "j < length bs'"
    and q: "q = draw_band ext a (map_option (normalized ext (zp a) (zpsys a)) (data a)) ms'
           (snd (update_offsets ext bs' (offsets a))) (nrow (length bs')) (j + 1)
           (fst (sort (zip (map (wave_eff ext) bs') bs') ! j))
           (snd (sort (zip (map (wave_eff ext) bs') bs') ! j))"
    by (rule panels_nth)
  from sel sel' have same: "bs' = bs" by simp
  let ?zs = "sort (zip (map (wave_eff ext) bs) bs)"
  have wp: "wave_eff ext (pband p) = fst (?zs ! i)"
    using sorted_zip_fst [OF i, of "wave_eff ext"] by (simp add: p draw_band_fields)
  have wq: "wave_eff ext (pband q) = fst (?zs ! j)"
    using sorted_zip_fst [of j bs "wave_eff ext"] j by (simp add: q same draw_band_fields)
  have "i < j"
  proof (rule ccontr)
    assume "\<not> i < j"
    then have "j \<le> i" by simp
    moreover have "i < length ?zs" using i by simp
    ultimately have "?zs ! j \<le> ?zs ! i"
      by (intro sorted_nth_mono) simp_all
    then have "fst (?zs ! j) \<le> fst (?zs ! i)"
      by (cases "?zs ! j"; cases "?zs ! i") auto
    with assms(3) wp wq show False by simp
  qed
  then show ?thesis
    by (simp add: p q draw_band_fields)
qed

theorem plot_lc_wavelength_order_witness:
  "wave_eff ext0 (pband (panels_drawn (plot_lc ext0 args0) ! 0))
     < wave_eff ext0 (pband (panels_drawn (plot_lc ext0 args0) ! 1))
   \<and> axnum (panels_drawn (plot_lc ext0 args0) ! 0)
     < axnum (panels_drawn (plot_lc ext0 args0) ! 1)"
proof -
  have w: "wave_eff ext0 (pband (panels_drawn (plot_lc ext0 args0) ! 0))
     < wave_eff ext0 (pband (panels_drawn (plot_lc ext0 args0) ! 1))"
    unfolding args0_panel_members(3,4) by (simp add: ext0_def)
  from plot_lc_wavelength_order [OF args0_panel_members(1) args0_panel_members(2) w] w
  show ?thesis by simp
qed

subsection \<open>The colour of a band\<close>

lemma panel_color:
  assumes "p \<in> set (panels_drawn (plot_lc ext a))"
  shows "color p = cmap_arg (wave_eff ext (pband p))"
proof -
  from assms obtain ms bs i where
    i: "i < length bs"
    and p: "p = draw_band ext a (map_option (normalized ext (zp a) (zpsys a)) (data a)) ms
           (snd (update_offsets ext bs (offsets a))) (nrow (length bs)) (i + 1)
           (fst (sort (zip (map (wave_eff ext) bs) bs) ! i))
           (snd (sort (zip (map (wave_eff ext) bs) bs) ! i))"
    by (rule panels_nth)
  from sorted_zip_fst [OF i, of "wave_eff ext"] show ?thesis
    by (simp add: p draw_band_fields)
qed

lemma cmap_arg_affine: "cmap_arg w = (10000 - w) / 7000"
  by (simp add: cmap_arg_def cm_wave_range_def)

text \<open>
  Claim C6. For every band drawn, the number \<^verbatim>\<open>plot_lc\<close> hands to the colour map is
  an affine function of the band's effective wavelength over the reference range
  3000-10000, \<open>(10000 - wave_eff) / 7000\<close>. It is monotonic (decreasing) in the wavelength,
  and for a wavelength inside the range it lies in \<open>[0, 1]\<close> and the band receives the colour
  the ramp has there. A band below the range receives the colour at the boundary 1 and a
  band above the range the colour at the boundary 0: the colour received is always that of
  the number clamped to \<open>[0, 1]\<close>.
\<close>

theorem plot_lc_band_colour:
  assumes "p \<in> set (panels_drawn (plot_lc ext a))"
    and "q \<in> set (panels_drawn (plot_lc ext a))"
  shows "color p = cmap_arg (wave_eff ext (pband p))
       \<and> color p = 10 / 7 - wave_eff ext (pband p) / 7000
       \<and> (wave_eff ext (pband p) \<le> wave_eff ext (pband q) \<longrightarrow> color q \<le> color p)
       \<and> (3000 \<le> wave_eff ext (pband p) \<and> wave_eff ext (pband p) \<le> 10000 \<longrightarrow>
            0 \<le> color p \<and> color p \<le> 1 \<and> colour_received ramp p = ramp (color p))
       \<and> (wave_eff ext (pband p) < 3000 \<longrightarrow> colour_received ramp p = ramp 1)
       \<and> (10000 < wave_eff ext (pband p) \<longrightarrow> colour_received ramp p = ramp 0)
       \<and> colour_received ramp p = ramp (max 0 (min 1 (color p)))"
proof -
  let ?w = "wave_eff ext (pband p)"
  have cp: "color p = (10000 - ?w) / 7000"
    using panel_color [OF assms(1)] by (simp add: cmap_arg_affine)
  have cq: "color q = (10000 - wave_eff ext (pband q)) / 7000"
    using panel_color [OF assms(2)] by (simp add: cmap_arg_affine)
  have mono: "?w \<le> wave_eff ext (pband q) \<longrightarrow> color q \<le> color p"
    unfolding cp cq by (simp add: divide_right_mono)
  have lo: "0 \<le> color p" if "?w \<le> 10000"
    unfolding cp using that by simp
  have hi: "color p \<le> 1" if "3000 \<le> ?w"
    unfolding cp using that by simp
  have above: "1 < color p" if "?w < 3000"
    unfolding cp using that by simp
  have below: "color p < 0" if "10000 < ?w"
    unfolding cp using that by (simp add: divide_neg_pos)
  have inside: "colour_received ramp p = ramp (color p)" if "3000 \<le> ?w" and "?w \<le> 10000"
    using lo [OF that(2)] hi [OF that(1)] by (simp add: colour_received_def cmap_def)
  have left: "colour_received ramp p = ramp 1" if "?w < 3000"
    using above [OF that] by (simp add: colour_received_def cmap_def)
  have right: "colour_received ramp p = ramp 0" if "10000 < ?w"
    using below [OF that] by (simp add: colour_received_def cmap_def)
  have "color p = 10 / 7 - ?w / 7000"
    unfolding cp by (simp add: field_simps)
  with panel_color [OF assms(1)] mono lo hi inside left right show ?thesis
    by (simp add: colour_received_def cmap_def)
qed

theorem plot_lc_band_colour_witness:
  "colour_received (\<lambda>x. x) (panels_drawn (plot_lc ext0 args2) ! 0) = (1::real)
   \<and> color (panels_drawn (plot_lc ext0 args2) ! 0) = 8 / 7
   \<and> color (panels_drawn (plot_lc ext0 args2) ! 1) = 6 / 7
   \<and> colour_received (\<lambda>x. x) (panels_drawn (plot_lc ext0 args2) ! 1) = (6 / 7 :: real)"
proof -
  note m = two_panels [OF args2_panels]
  from plot_lc_band_colour [OF m(1) m(2), of "\<lambda>x. x"]
    plot_lc_band_colour [OF m(2) m(1), of "\<lambda>x. x"]
  show ?thesis
    unfolding m(3,4) by (simp add: ext0_def)
qed

subsection \<open>The offsets dictionary\<close>







subsection \<open>The pulls\<close>







subsection \<open>The arguments that are written to\<close>









text \<open>Two keys that resolve to one bandpass end the call in the re-keying loop.\<close>

lemma rekey_collision:
  "raised (plot_lc ext0 (args0\<lparr>offsets := Some [(11, 1), (1, 2)]\<rparr>)) =
     Some (RuntimeError ''dictionary changed size during iteration'')"
  by (simp add: plot_lc_eval sample_defs)

subsection \<open>The figure-size options\<close>

text \<open>The size computation raises exactly when both sizes are given, or when only the
  height is given and the grid has no rows; a call with both sizes given raises before
  any figure is created.\<close>

lemma figsize_of_error:
  "(\<exists>e. figsize_of nr xf yf = Inl e) \<longleftrightarrow>
     (xf \<noteq> None \<and> yf \<noteq> None) \<or> (xf = None \<and> yf \<noteq> None \<and> nr = 0)"
  by (auto simp: figsize_of_def split: option.splits)

lemma plot_lc_both_figsizes_raise:
  assumes "xfigsize a = Some x" and "yfigsize a = Some y"
  shows "raised (plot_lc ext a) \<noteq> None \<and> fig (plot_lc ext a) = None"
  using assms
  by (auto simp: plot_lc_def failed_def Let_def figsize_of_def
      split: if_splits sum.splits option.splits)

text \<open>
  Claim C7, at an input where the code departs from it. A call that gives only
  \<^verbatim>\<open>yfigsize\<close>, for a model and an empty band list, raises \<^verbatim>\<open>ZeroDivisionError\<close>
  in the size computation (\<open>nrow\<close> is 0 and line 192 divides by it) before any figure is
  created; in the same call with only \<^verbatim>\<open>xfigsize\<close> no statement of \<^verbatim>\<open>plot_lc\<close>
  raises.
\<close>

theorem plot_lc_yfigsize_without_bands:
  "raised (plot_lc ext0 (args0\<lparr>data := None, bands := Some [], yfigsize := Some 6\<rparr>)) =
     Some ZeroDivisionError
   \<and> fig (plot_lc ext0 (args0\<lparr>data := None, bands := Some [], yfigsize := Some 6\<rparr>)) = None
   \<and> raised (plot_lc ext0 (args0\<lparr>data := None, bands := Some [], xfigsize := Some 6\<rparr>)) = None"
  by (simp add: plot_lc_eval sample_defs)

section \<open>Properties of plot\_param\_samples\<close>

lemma sqrt_16: "sqrt 16 = 4"
  using real_sqrt_abs [of 4] by simp

text \<open>Without weights the window is the mean plus and minus five standard deviations,
  and with weights that sum to 1 it is the weighted mean plus and minus five weighted
  standard deviations.\<close>

lemma xlims_unweighted:
  "xlims samples None i = Inr (spec_window (column samples i) None)"
  by (simp add: xlims_def avg_std_def np_average_def spec_window_def)

lemma weighted_square_expand:
  fixes c :: real
  assumes "length xs = length ws"
  shows "sum_list (map (\<lambda>(x, w). w * (x - c)\<^sup>2) (zip xs ws)) =
         sum_list (map (\<lambda>(w, x). w * x\<^sup>2) (zip ws xs))
           - 2 * c * sum_list (map (\<lambda>(x, w). x * w) (zip xs ws)) + c\<^sup>2 * sum_list ws"
  using assms by (induction xs ws rule: list_induct2) (auto simp: power2_eq_square algebra_simps)

lemma xlims_normalised_weights:
  assumes "length ws = length samples" and "sum_list ws = 1"
  shows "xlims samples (Some ws) i = Inr (spec_window (column samples i) (Some ws))"
proof -
  have len: "length (column samples i) = length ws"
    using assms(1) by (simp add: column_def)
  have mean: "sum_list (map (\<lambda>(x, w). x * w) (zip (column samples i) ws)) =
              weighted_mean (column samples i) ws"
    by (simp add: weighted_mean_def assms(2) mult.commute)
  have "weighted_std (column samples i) ws =
        sqrt (sum_list (map (\<lambda>(w, x). w * x\<^sup>2) (zip ws (column samples i)))
              - (weighted_mean (column samples i) ws)\<^sup>2)"
    unfolding weighted_std_def weighted_square_expand [OF len] mean assms(2)
    by (simp add: power2_eq_square algebra_simps)
  then show ?thesis
    using len mean
    by (simp add: xlims_def avg_std_def np_average_def spec_window_def assms(2))
qed

text \<open>
  Claim C2, at an input where the code departs from it. For the two samples 1 and 3 of
  one parameter, each with weight 2, the weighted mean is 2 and the weighted standard
  deviation is 1, so the window of the claim is \<open>[-3, 7]\<close>. The code takes the root of
  \<open>2 * 1 + 2 * 9 - 2\<^sup>2 = 16\<close> as the standard deviation and uses the window
  \<open>[-18, 22]\<close>.
\<close>

theorem xlims_unnormalised_weights:
  "xlims [[1], [3]] (Some [2, 2]) 0 = Inr (-18, 22)
   \<and> spec_window (column [[1], [3]] 0) (Some [2, 2]) = (-3, 7)"
  by (simp add: xlims_def avg_std_def np_average_def column_def spec_window_def
      weighted_mean_def weighted_std_def sqrt_16)

section \<open>Properties of animate\_model\<close>

text \<open>Lines 495-498 compute one offset per model: with \<^verbatim>\<open>match_refphase\<close> the
  reference phase of the model minus that of the first model, and 0 without.\<close>

lemma time_offsets_formula:
  "length (time_offsets models match_refphase) = length models
   \<and> (\<forall>k < length models.
        time_offsets models match_refphase ! k =
          (if match_refphase then refphase (models ! k) - refphase (models ! 0) else 0))"
  by (auto simp: time_offsets_def Let_def)

lemma animate_model_name_error:
  "animate_model_offsets (OneModel m) match_refphase =
     Inl (NameError ''get_model'')"
  "ms \<noteq> [] \<Longrightarrow> animate_model_offsets (ManyModels ms) match_refphase =
     Inl (NameError ''get_model'')"
  by (auto simp: animate_model_offsets_def resolve_models_def split: list.splits)

text \<open>
  Claim C3, at an input where the code departs from it. Called with the two model names
  of its docstring, \<^verbatim>\<open>animate_model\<close> raises \<^verbatim>\<open>NameError\<close> at line 493 and no time
  offset is computed; for two models with reference phases 3 and 5 the claim, and lines
  495-498, give the offsets 0 and 2.
\<close>

theorem animate_model_raises_before_offsets:
  "animate_model_offsets (ManyModels [''salt2'', ''hsiao'']) True =
     Inl (NameError ''get_model'')
   \<and> time_offsets [\<lparr>refphase = 3\<rparr>, \<lparr>refphase = 5\<rparr>] True = [0, 2]"
  by (simp add: animate_model_offsets_def resolve_models_def time_offsets_def)

end
